theory Spec2Isabelle
  imports Main
begin

section \<open>Data model\<close>

text \<open>
  A message is an ordered sequence of content fragments (\<^verbatim>\<open>message.fragments\<close>);
  a fragment is represented by its text.
\<close>

type_synonym DMessageFragment = string

record DMessage =
  fragments :: "DMessageFragment list"

text \<open>Ray lifecycle: idle, generating, and the terminal states done, error, stopped.\<close>

datatype ray_status = RayIdle | RayGenerating | RayDone | RayError | RayStopped

record BRay =
  rayId :: nat
  status :: ray_status
  message :: DMessage
  rayLlmId :: "string option"
  rayErrorText :: "string option"

text \<open>Fusion lifecycle: idle (editable), fusing, and the terminal states done, error, stopped.\<close>

datatype fusion_stage = FusionIdle | FusionFusing | FusionDone | FusionError | FusionStopped

record BFusion =
  fusionId :: nat
  factoryId :: string
  llmId :: "string option"
  stage :: fusion_stage
  outputDMessage :: "DMessage option"
  errorText :: "string option"
  fusionInput :: "DMessage list"

text \<open>
  The state of the beam store, as \<^verbatim>\<open>BeamView.tsx\<close> and \<^verbatim>\<open>Fusion.tsx\<close> read it through
  \<^verbatim>\<open>getState()\<close> and the selectors: \<^verbatim>\<open>rays\<close>, \<^verbatim>\<open>fusions\<close>, \<^verbatim>\<open>isScattering\<close>,
  \<^verbatim>\<open>raysReady\<close>, \<^verbatim>\<open>currentFactoryId\<close>, \<^verbatim>\<open>currentGatherLlmId\<close>, \<^verbatim>\<open>onSuccessCallback\<close>
  (registered or null). \<open>cancelledJobs\<close> is the trace of generation jobs whose
  cancellation handle has been used, \<open>nextId\<close> the supply of fresh identities.
\<close>

record BeamStore =
  rays :: "BRay list"
  fusions :: "BFusion list"
  isScattering :: bool
  raysReady :: nat
  currentFactoryId :: "string option"
  currentGatherLlmId :: "string option"
  onSuccessCallback :: "unit option"
  cancelledJobs :: "nat list"
  nextId :: nat

text \<open>
  The world of one mounted \<^verbatim>\<open>BeamView\<close>: the beam store, the module store's
  \<^verbatim>\<open>gatherAutoStartAfterScatter\<close>, the two \<^verbatim>\<open>React.useState\<close> cells, and the traces of the
  two outward effects (calls of the success callback, writes to the clipboard).
\<close>

record BeamWorld =
  store :: BeamStore
  gatherAutoStartAfterScatter :: bool
  hasAutoMerged :: bool
  warnIsScattering :: bool
  successCalls :: "DMessage list"
  clipboard :: "(string \<times> string) list"

text \<open>
  What the two components import and do not define: the actions of the store they are
  handed (\<^verbatim>\<open>props.beamStore.getState()\<close>: \<^verbatim>\<open>setRayCount\<close>, \<^verbatim>\<open>startScatteringAll\<close>,
  \<^verbatim>\<open>stopScatteringAll\<close>, \<^verbatim>\<open>createFusion\<close>, \<^verbatim>\<open>toggleFusionGathering\<close>, \<^verbatim>\<open>removeFusion\<close>),
  each a change of the store's state, and \<^verbatim>\<open>messageFragmentsReduceText\<close>. The components
  are modelled over any such actions. \<^verbatim>\<open>createFusion\<close> may consult the module store's
  auto-start flag, which it is given.
\<close>

record BeamEnv =
  setRayCount :: "int \<Rightarrow> BeamStore \<Rightarrow> BeamStore"
  startScatteringAll :: "bool \<Rightarrow> BeamStore \<Rightarrow> BeamStore"
  stopScatteringAll :: "BeamStore \<Rightarrow> BeamStore"
  createFusion :: "bool \<Rightarrow> BeamStore \<Rightarrow> BeamStore"
  toggleFusionGathering :: "nat \<Rightarrow> BeamStore \<Rightarrow> BeamStore"
  removeFusion :: "nat \<Rightarrow> BeamStore \<Rightarrow> BeamStore"
  messageFragmentsReduceText :: "DMessageFragment list \<Rightarrow> string option \<Rightarrow> string"


section \<open>The view: \<^verbatim>\<open>BeamView.tsx\<close> and \<^verbatim>\<open>Fusion.tsx\<close>\<close>

text \<open>
  The composite selector of \<^verbatim>\<open>BeamView\<close> (line 58):
  \<^verbatim>\<open>state.raysReady >= 2 && state.currentFactoryId !== null && state.currentGatherLlmId !== null\<close>.
\<close>

definition canGather :: "BeamStore \<Rightarrow> bool" where
  "canGather s = (raysReady s \<ge> 2 \<and> currentFactoryId s \<noteq> None \<and> currentGatherLlmId s \<noteq> None)"

text \<open>
  One render of \<^verbatim>\<open>BeamView\<close> reads the store and the state cells into constants, and
  the callbacks made by that render close over these constants: \<^verbatim>\<open>handleCreateFusion\<close> over
  \<^verbatim>\<open>isScattering\<close>, \<^verbatim>\<open>handleRayIncreaseCount\<close> over \<^verbatim>\<open>raysCount\<close>, the two effects over
  \<^verbatim>\<open>shallAutoMerge\<close> and \<^verbatim>\<open>shallResumeMerge\<close>. A callback keeps the constants of its
  render while it runs, whatever it does to the store meanwhile; what a callback reads
  through \<^verbatim>\<open>getState()\<close> is the store of the moment.
\<close>

record Rendered =
  r_isScattering :: bool
  r_canGather :: bool
  r_raysCount :: nat
  r_gatherAutoStartAfterScatter :: bool
  r_hasAutoMerged :: bool
  r_warnIsScattering :: bool

definition render :: "BeamWorld \<Rightarrow> Rendered" where
  "render w =
     \<lparr>r_isScattering = isScattering (store w),
      r_canGather = canGather (store w),
      r_raysCount = length (map rayId (rays (store w))),
      r_gatherAutoStartAfterScatter = gatherAutoStartAfterScatter w,
      r_hasAutoMerged = hasAutoMerged w,
      r_warnIsScattering = warnIsScattering w\<rparr>"

definition handleRaySetCount :: "BeamEnv \<Rightarrow> int \<Rightarrow> BeamWorld \<Rightarrow> BeamWorld" where
  "handleRaySetCount env n w = w\<lparr>store := setRayCount env n (store w)\<rparr>"

definition handleRayIncreaseCount :: "BeamEnv \<Rightarrow> Rendered \<Rightarrow> BeamWorld \<Rightarrow> BeamWorld" where
  "handleRayIncreaseCount env rn w =
     w\<lparr>store := setRayCount env (int (r_raysCount rn) + 1) (store w)\<rparr>"

datatype rays_operation = Copy | Use

definition raysSeparator :: string where
  "raysSeparator = [CHR 0x0A, CHR 0x0A, CHR 0x0A] @ ''---'' @ [CHR 0x0A, CHR 0x0A, CHR 0x0A]"

definition handleRaysOperation :: "BeamEnv \<Rightarrow> rays_operation \<Rightarrow> BeamWorld \<Rightarrow> BeamWorld" where
  "handleRaysOperation env operation w =
     (let allFragments = concat (map (\<lambda>ray. fragments (message ray)) (rays (store w)))
      in if allFragments \<noteq> [] then
           (case operation of
              Copy \<Rightarrow>
                w\<lparr>clipboard := clipboard w @
                    [(messageFragmentsReduceText env allFragments (Some raysSeparator), ''All Beams'')]\<rparr>
            | Use \<Rightarrow>
                (case onSuccessCallback (store w) of
                   None \<Rightarrow> w
                 | Some _ \<Rightarrow> w\<lparr>successCalls := successCalls w @ [\<lparr>fragments = allFragments\<rparr>]\<rparr>))
         else w)"

definition handleFusionCopyToClipboard :: "BeamEnv \<Rightarrow> nat \<Rightarrow> BeamWorld \<Rightarrow> BeamWorld" where
  "handleFusionCopyToClipboard env fid w =
     (case find (\<lambda>fusion. fusionId fusion = fid) (fusions (store w)) of
        None \<Rightarrow> w
      | Some fusion \<Rightarrow>
         (case outputDMessage fusion of
            None \<Rightarrow> w
          | Some m \<Rightarrow>
             if fragments m \<noteq> []
             then w\<lparr>clipboard := clipboard w @
                     [(messageFragmentsReduceText env (fragments m) None, ''Merge'')]\<rparr>
             else w))"

definition handleFusionUse :: "nat \<Rightarrow> BeamWorld \<Rightarrow> BeamWorld" where
  "handleFusionUse fid w =
     (case find (\<lambda>fusion. fusionId fusion = fid) (fusions (store w)) of
        None \<Rightarrow> w
      | Some fusion \<Rightarrow>
         (case outputDMessage fusion of
            None \<Rightarrow> w
          | Some m \<Rightarrow>
             if fragments m \<noteq> [] \<and> onSuccessCallback (store w) \<noteq> None
             then w\<lparr>successCalls := successCalls w @ [m]\<rparr>
             else w))"

definition handleFusionRemove :: "BeamEnv \<Rightarrow> nat \<Rightarrow> BeamWorld \<Rightarrow> BeamWorld" where
  "handleFusionRemove env fid w = w\<lparr>store := removeFusion env fid (store w)\<rparr>"

definition handleToggleFusionGather :: "BeamEnv \<Rightarrow> nat \<Rightarrow> BeamWorld \<Rightarrow> BeamWorld" where
  "handleToggleFusionGather env fid w = w\<lparr>store := toggleFusionGathering env fid (store w)\<rparr>"

definition handleScatterStart :: "BeamEnv \<Rightarrow> bool \<Rightarrow> BeamWorld \<Rightarrow> BeamWorld" where
  "handleScatterStart env restart w =
     (w\<lparr>hasAutoMerged := False\<rparr>)\<lparr>store := startScatteringAll env restart (store w)\<rparr>"

definition handleCreateFusion :: "BeamEnv \<Rightarrow> Rendered \<Rightarrow> BeamWorld \<Rightarrow> BeamWorld" where
  "handleCreateFusion env rn w =
     (if r_isScattering rn then w\<lparr>warnIsScattering := True\<rparr>
      else w\<lparr>store := createFusion env (gatherAutoStartAfterScatter w) (store w)\<rparr>)"

text \<open>
  \<^verbatim>\<open>setWarnIsScattering(false); stopScatteringAll(); handleCreateFusion();\<close> The state
  setters of one callback take effect in the order of the calls, before the next render:
  a later \<^verbatim>\<open>setWarnIsScattering(true)\<close> of \<^verbatim>\<open>handleCreateFusion\<close> wins. The
  \<^verbatim>\<open>handleCreateFusion\<close> called is the one of the same render.
\<close>

definition handleStartMergeConfirmation :: "BeamEnv \<Rightarrow> Rendered \<Rightarrow> BeamWorld \<Rightarrow> BeamWorld" where
  "handleStartMergeConfirmation env rn w =
     handleCreateFusion env rn
       ((w\<lparr>warnIsScattering := False\<rparr>)\<lparr>store := stopScatteringAll env (store w)\<rparr>)"

definition handleStartMergeDenial :: "BeamWorld \<Rightarrow> BeamWorld" where
  "handleStartMergeDenial w = w\<lparr>warnIsScattering := False\<rparr>"

definition shallAutoMerge :: "Rendered \<Rightarrow> bool" where
  "shallAutoMerge rn =
     (r_gatherAutoStartAfterScatter rn \<and> r_canGather rn \<and> \<not> r_isScattering rn \<and> \<not> r_hasAutoMerged rn)"

definition effectAutoMerge :: "BeamEnv \<Rightarrow> Rendered \<Rightarrow> BeamWorld \<Rightarrow> BeamWorld" where
  "effectAutoMerge env rn w =
     (if shallAutoMerge rn
      then handleStartMergeConfirmation env rn (w\<lparr>hasAutoMerged := True\<rparr>)
      else w)"

definition shallResumeMerge :: "Rendered \<Rightarrow> bool" where
  "shallResumeMerge rn =
     (r_warnIsScattering rn \<and> \<not> r_isScattering rn \<and> \<not> r_gatherAutoStartAfterScatter rn)"

definition effectResumeMerge :: "BeamEnv \<Rightarrow> Rendered \<Rightarrow> BeamWorld \<Rightarrow> BeamWorld" where
  "effectResumeMerge env rn w =
     (if shallResumeMerge rn then handleStartMergeConfirmation env rn w else w)"

text \<open>
  After a change the view renders again and the effects of that render run, in the order
  of their declaration and on that render's constants. An effect runs when one of its
  dependencies has changed, and both bodies test their flag first: an effect whose flag is
  true has run in the render where the flag became true, where it has turned the flag off
  (\<^verbatim>\<open>hasAutoMerged\<close> set, \<^verbatim>\<open>warnIsScattering\<close> cleared), so running the body in every
  render whose flag is true is the same.
\<close>

definition commit :: "BeamEnv \<Rightarrow> BeamWorld \<Rightarrow> BeamWorld" where
  "commit env w =
     (let rn = render w in effectResumeMerge env rn (effectAutoMerge env rn w))"

text \<open>
  The events of a view: the user's actions (the callbacks handed to the panes, the grids,
  the fusion cards and the modal, which is open only while \<^verbatim>\<open>warnIsScattering\<close>), a
  change of the auto-start setting, any change made to the store from elsewhere (a job
  event, the action of a ray's own card, another component), and a remount of the view.
  The store is a prop and outlives the component, while \<^verbatim>\<open>hasAutoMerged\<close> and
  \<^verbatim>\<open>warnIsScattering\<close> are \<^verbatim>\<open>React.useState(false)\<close> cells (lines 31 and 32): a
  remount starts both at false over the store as it is.
\<close>

datatype BeamEvent =
    RaySetCount int
  | RayIncreaseCount
  | RaysOperation rays_operation
  | ScatterStart bool
  | ScatterStop
  | AddFusion
  | MergeConfirm
  | MergeDeny
  | FusionUse nat
  | FusionCopy nat
  | FusionToggle nat
  | FusionRemove nat
  | SetAutoStart bool
  | StoreUpdate "BeamStore \<Rightarrow> BeamStore"
  | Remount

fun dispatch :: "BeamEnv \<Rightarrow> BeamEvent \<Rightarrow> BeamWorld \<Rightarrow> BeamWorld" where
  "dispatch env (RaySetCount n) w = handleRaySetCount env n w"
| "dispatch env RayIncreaseCount w = handleRayIncreaseCount env (render w) w"
| "dispatch env (RaysOperation operation) w = handleRaysOperation env operation w"
| "dispatch env (ScatterStart restart) w = handleScatterStart env restart w"
| "dispatch env ScatterStop w = w\<lparr>store := stopScatteringAll env (store w)\<rparr>"
| "dispatch env AddFusion w = handleCreateFusion env (render w) w"
| "dispatch env MergeConfirm w =
     (if r_warnIsScattering (render w) then handleStartMergeConfirmation env (render w) w else w)"
| "dispatch env MergeDeny w =
     (if r_warnIsScattering (render w) then handleStartMergeDenial w else w)"
| "dispatch env (FusionUse fid) w = handleFusionUse fid w"
| "dispatch env (FusionCopy fid) w = handleFusionCopyToClipboard env fid w"
| "dispatch env (FusionToggle fid) w = handleToggleFusionGather env fid w"
| "dispatch env (FusionRemove fid) w = handleFusionRemove env fid w"
| "dispatch env (SetAutoStart b) w = w\<lparr>gatherAutoStartAfterScatter := b\<rparr>"
| "dispatch env (StoreUpdate f) w = w\<lparr>store := f (store w)\<rparr>"
| "dispatch env Remount w = w\<lparr>hasAutoMerged := False, warnIsScattering := False\<rparr>"

definition step :: "BeamEnv \<Rightarrow> BeamEvent \<Rightarrow> BeamWorld \<Rightarrow> BeamWorld" where
  "step env ev w = commit env (dispatch env ev w)"

fun run :: "BeamEnv \<Rightarrow> BeamEvent list \<Rightarrow> BeamWorld \<Rightarrow> BeamWorld" where
  "run env [] w = w"
| "run env (ev # evs) w = run env evs (step env ev w)"

text \<open>How often the body of the auto-merge effect runs along a sequence of events.\<close>

fun autoMergeFirings :: "BeamEnv \<Rightarrow> BeamEvent list \<Rightarrow> BeamWorld \<Rightarrow> nat" where
  "autoMergeFirings env [] w = 0"
| "autoMergeFirings env (ev # evs) w =
     (if shallAutoMerge (render (dispatch env ev w)) then 1 else 0)
       + autoMergeFirings env evs (step env ev w)"

text \<open>The events that clear \<^verbatim>\<open>hasAutoMerged\<close>: a scatter start and a remount.\<close>

fun isRearm :: "BeamEvent \<Rightarrow> bool" where
  "isRearm (ScatterStart restart) = True"
| "isRearm Remount = True"
| "isRearm ev = False"


text \<open>A freshly mounted view over an empty store.\<close>

definition initStore :: BeamStore where
  "initStore =
     \<lparr>rays = [], fusions = [], isScattering = False, raysReady = 0,
      currentFactoryId = None, currentGatherLlmId = None, onSuccessCallback = None,
      cancelledJobs = [], nextId = 0\<rparr>"

definition initWorld :: "bool \<Rightarrow> BeamWorld" where
  "initWorld autoStart =
     \<lparr>store = initStore, gatherAutoStartAfterScatter = autoStart, hasAutoMerged = False,
      warnIsScattering = False, successCalls = [], clipboard = []\<rparr>"

section \<open>The store, from the specification\<close>

text \<open>
  The code of the beam store (the scatter and gather controllers, the ray and fusion state
  machines) is not among the sources; the two components only call it. The definitions of
  this section follow the specification's description of it.
\<close>

text \<open>
  Modelled from the spec: the configuration the store depends on, namely the configured
  maximum of rays (section 4.2) and the auto-runnable flag that each factory of the
  registry declares (section 4.3), by factory id.
\<close>

record SpecConfig =
  maxRays :: nat
  autoRunnable :: "string \<Rightarrow> bool"

text \<open>Modelled from the spec: a ray is being generated while in the state generating.\<close>

definition rayIsScattering :: "BRay \<Rightarrow> bool" where
  "rayIsScattering r = (status r = RayGenerating)"

text \<open>
  Modelled from the spec: the ready predicate of the scatter controller. A ready ray is in
  a terminal, non-stopped state with non-empty output.
\<close>

definition rayIsReady :: "BRay \<Rightarrow> bool" where
  "rayIsReady r = ((status r = RayDone \<or> status r = RayError) \<and> fragments (message r) \<noteq> [])"

text \<open>
  Modelled from the spec: the store keeps the flag "is any ray generating" and the ready
  count in step with the rays.
\<close>

definition syncRaysStateToScatter :: "BeamStore \<Rightarrow> BeamStore" where
  "syncRaysStateToScatter s =
     s\<lparr>isScattering := list_ex rayIsScattering (rays s),
       raysReady := length (filter rayIsReady (rays s))\<rparr>"

text \<open>
  Modelled from the spec: the condition that the flag and the ready count of a store are
  in step with its rays.
\<close>

definition scatterSynced :: "BeamStore \<Rightarrow> bool" where
  "scatterSynced s =
     (isScattering s = list_ex rayIsScattering (rays s) \<and>
      raysReady s = length (filter rayIsReady (rays s)))"

text \<open>
  Modelled from the spec: the events of a generation job (section 6): a content delta, an
  error, the completion.
\<close>

datatype job_event = Delta string | JobError string | JobDone

text \<open>Modelled from the spec: a new ray is idle, with an empty output (section 4.1).\<close>

definition createBRay :: "nat \<Rightarrow> BRay" where
  "createBRay i =
     \<lparr>rayId = i, status = RayIdle, message = \<lparr>fragments = []\<rparr>,
      rayLlmId = None, rayErrorText = None\<rparr>"

text \<open>
  Modelled from the spec: starting or restarting a ray clears its output and error and
  makes it generating (section 4.1).
\<close>

definition rayScatterStart :: "BRay \<Rightarrow> BRay" where
  "rayScatterStart r =
     r\<lparr>status := RayGenerating, message := \<lparr>fragments = []\<rparr>, rayErrorText := None\<rparr>"

text \<open>
  Modelled from the spec: cancelling a generating ray makes it stopped; a ray that is not
  generating is unaffected (sections 4.1 and 4.2).
\<close>

definition rayScatterStop :: "BRay \<Rightarrow> BRay" where
  "rayScatterStop r = (if rayIsScattering r then r\<lparr>status := RayStopped\<rparr> else r)"

text \<open>
  Modelled from the spec: a job event applied to a ray (sections 4.1 and 5). While
  generating, a delta is appended to the output, an error makes the ray error with the
  text kept, the completion makes it done. A terminal ray is immutable until a restart, so
  an event that arrives for a ray that is not generating is dropped.
\<close>

fun rayJobEvent :: "BRay \<Rightarrow> job_event \<Rightarrow> BRay" where
  "rayJobEvent r (Delta t) =
     (if rayIsScattering r
      then r\<lparr>message := \<lparr>fragments = fragments (message r) @ [t]\<rparr>\<rparr> else r)"
| "rayJobEvent r (JobError e) =
     (if rayIsScattering r then r\<lparr>status := RayError, rayErrorText := Some e\<rparr> else r)"
| "rayJobEvent r JobDone =
     (if rayIsScattering r then r\<lparr>status := RayDone\<rparr> else r)"

text \<open>
  Modelled from the spec: \<^verbatim>\<open>startAll(restart)\<close> (section 4.2). Every ray that is idle,
  or every ray when \<open>restart\<close> holds, begins generation; rays already generating are
  left untouched.
\<close>

definition specStartScatteringAll :: "bool \<Rightarrow> BeamStore \<Rightarrow> BeamStore" where
  "specStartScatteringAll restart s =
     syncRaysStateToScatter
       (s\<lparr>rays := map (\<lambda>r. if rayIsScattering r then r
                            else if restart \<or> status r = RayIdle then rayScatterStart r
                            else r) (rays s)\<rparr>)"

text \<open>
  Modelled from the spec: \<^verbatim>\<open>stopAll()\<close> (section 4.2). Every generating ray is cancelled
  and becomes stopped; the other rays are unaffected.
\<close>

definition specStopScatteringAll :: "BeamStore \<Rightarrow> BeamStore" where
  "specStopScatteringAll s =
     syncRaysStateToScatter
       (s\<lparr>rays := map rayScatterStop (rays s),
          cancelledJobs := cancelledJobs s @ map rayId (filter rayIsScattering (rays s))\<rparr>)"

text \<open>
  Modelled from the spec: \<^verbatim>\<open>setRayCount(n)\<close> (section 4.2). The request is clamped into
  the range from 0 to the configured maximum; existing rays are kept by index, trailing
  rays are removed, the job of a removed generating ray being cancelled first, and new
  idle rays are created as needed.
\<close>

definition specSetRayCount :: "SpecConfig \<Rightarrow> int \<Rightarrow> BeamStore \<Rightarrow> BeamStore" where
  "specSetRayCount cfg n s =
     (let count = nat (max 0 (min (int (maxRays cfg)) n));
          removed = drop count (rays s);
          added = count - length (rays s)
      in syncRaysStateToScatter
           (s\<lparr>rays := take count (rays s) @ map (\<lambda>k. createBRay (nextId s + k)) [0..<added],
              cancelledJobs := cancelledJobs s @ map rayId (filter rayIsScattering removed),
              nextId := nextId s + added\<rparr>))"

text \<open>
  Modelled from the spec: the restart of one ray from a state in which it is not
  generating (section 4.1).
\<close>

definition rayRestart :: "nat \<Rightarrow> BeamStore \<Rightarrow> BeamStore" where
  "rayRestart i s =
     syncRaysStateToScatter
       (s\<lparr>rays := map (\<lambda>r. if rayId r = i \<and> \<not> rayIsScattering r
                            then rayScatterStart r else r) (rays s)\<rparr>)"

text \<open>
  Modelled from the spec: a job event delivered to the ray of a given identity, as one
  serialized update of the store (section 5).
\<close>

definition rayDeliver :: "nat \<Rightarrow> job_event \<Rightarrow> BeamStore \<Rightarrow> BeamStore" where
  "rayDeliver i ev s =
     syncRaysStateToScatter
       (s\<lparr>rays := map (\<lambda>r. if rayId r = i then rayJobEvent r ev else r) (rays s)\<rparr>)"

text \<open>
  Modelled from the spec: a new fusion is idle, bound to a factory and a target model,
  with no output yet (sections 3 and 4.4).
\<close>

definition createBFusion :: "nat \<Rightarrow> string \<Rightarrow> string \<Rightarrow> BFusion" where
  "createBFusion i fid llm =
     \<lparr>fusionId = i, factoryId = fid, llmId = Some llm, stage = FusionIdle,
      outputDMessage = None, errorText = None, fusionInput = []\<rparr>"

text \<open>Modelled from the spec: a fusion's job is active while in the stage fusing.\<close>

definition fusionIsFusing :: "BFusion \<Rightarrow> bool" where
  "fusionIsFusing f = (stage f = FusionFusing)"

text \<open>
  Modelled from the spec: starting a fusion makes it fusing, on a snapshot of the outputs
  of the rays that are ready at that moment (sections 3 and 4.4).
\<close>

definition fusionStart :: "BRay list \<Rightarrow> BFusion \<Rightarrow> BFusion" where
  "fusionStart rs f =
     f\<lparr>stage := FusionFusing, outputDMessage := Some \<lparr>fragments = []\<rparr>, errorText := None,
       fusionInput := map message (filter rayIsReady rs)\<rparr>"

text \<open>Modelled from the spec: cancelling a fusing fusion makes it stopped (section 4.4).\<close>

definition fusionStop :: "BFusion \<Rightarrow> BFusion" where
  "fusionStop f = (if fusionIsFusing f then f\<lparr>stage := FusionStopped\<rparr> else f)"

text \<open>
  Modelled from the spec: \<^verbatim>\<open>toggleGathering\<close> (section 4.4). An idle fusion is started,
  a fusing one is cancelled. The spec defines the toggle for these two stages only; a
  terminal fusion is left as it is here.
\<close>

definition toggleGathering :: "BRay list \<Rightarrow> BFusion \<Rightarrow> BFusion" where
  "toggleGathering rs f =
     (if stage f = FusionIdle then fusionStart rs f
      else if fusionIsFusing f then fusionStop f
      else f)"

text \<open>
  Modelled from the spec: a job event applied to a fusion (sections 4.4 and 5), as for a
  ray: it counts only while the fusion is fusing.
\<close>

fun fusionJobEvent :: "BFusion \<Rightarrow> job_event \<Rightarrow> BFusion" where
  "fusionJobEvent f (Delta t) =
     (if fusionIsFusing f
      then f\<lparr>outputDMessage :=
               Some \<lparr>fragments = (case outputDMessage f of None \<Rightarrow> [] | Some m \<Rightarrow> fragments m) @ [t]\<rparr>\<rparr>
      else f)"
| "fusionJobEvent f (JobError e) =
     (if fusionIsFusing f then f\<lparr>stage := FusionError, errorText := Some e\<rparr> else f)"
| "fusionJobEvent f JobDone =
     (if fusionIsFusing f then f\<lparr>stage := FusionDone\<rparr> else f)"

text \<open>
  Modelled from the spec: the store's action that toggles the fusion of a given identity,
  recording the cancellation of its job when it was fusing.
\<close>

definition specToggleFusionGathering :: "nat \<Rightarrow> BeamStore \<Rightarrow> BeamStore" where
  "specToggleFusionGathering fid s =
     s\<lparr>fusions := map (\<lambda>f. if fusionId f = fid then toggleGathering (rays s) f else f) (fusions s),
       cancelledJobs := cancelledJobs s @
         map fusionId (filter (\<lambda>f. fusionId f = fid \<and> fusionIsFusing f) (fusions s))\<rparr>"

text \<open>Modelled from the spec: a fusion is destroyed by explicit removal (section 3).\<close>

definition specRemoveFusion :: "nat \<Rightarrow> BeamStore \<Rightarrow> BeamStore" where
  "specRemoveFusion fid s = s\<lparr>fusions := filter (\<lambda>f. fusionId f \<noteq> fid) (fusions s)\<rparr>"

text \<open>
  Modelled from the spec: a job event delivered to the fusion of a given identity, as one
  serialized update of the store (section 5).
\<close>

definition fusionDeliver :: "nat \<Rightarrow> job_event \<Rightarrow> BeamStore \<Rightarrow> BeamStore" where
  "fusionDeliver fid ev s =
     s\<lparr>fusions := map (\<lambda>f. if fusionId f = fid then fusionJobEvent f ev else f) (fusions s)\<rparr>"

text \<open>
  Modelled from the spec: the fusion that \<^verbatim>\<open>createFusion\<close> makes, started at once if its
  factory is auto-runnable and auto-start-on-scatter-completion is enabled (section 4.5).
\<close>

definition newFusion :: "SpecConfig \<Rightarrow> bool \<Rightarrow> BeamStore \<Rightarrow> string \<Rightarrow> string \<Rightarrow> BFusion" where
  "newFusion cfg autoStart s fid llm =
     (if autoRunnable cfg fid \<and> autoStart
      then fusionStart (rays s) (createBFusion (nextId s) fid llm)
      else createBFusion (nextId s) fid llm)"

text \<open>
  Modelled from the spec: \<^verbatim>\<open>createFusion\<close> of the gather controller (sections 4.4 and
  4.5). Creation is a silent no-op with fewer than two ready rays or with no factory or no
  model chosen; otherwise one fusion is appended.
\<close>

definition specCreateFusion :: "SpecConfig \<Rightarrow> bool \<Rightarrow> BeamStore \<Rightarrow> BeamStore" where
  "specCreateFusion cfg autoStart s =
     (case currentFactoryId s of
        None \<Rightarrow> s
      | Some fid \<Rightarrow>
         (case currentGatherLlmId s of
            None \<Rightarrow> s
          | Some llm \<Rightarrow>
             if raysReady s < 2 then s
             else s\<lparr>fusions := fusions s @ [newFusion cfg autoStart s fid llm],
                    nextId := Suc (nextId s)\<rparr>))"

text \<open>
  Modelled from the spec: the store's actions as the specification describes them, put
  together for the view.
\<close>

definition specEnv ::
  "SpecConfig \<Rightarrow> (DMessageFragment list \<Rightarrow> string option \<Rightarrow> string) \<Rightarrow> BeamEnv" where
  "specEnv cfg reduceText =
     \<lparr>setRayCount = specSetRayCount cfg,
      startScatteringAll = specStartScatteringAll,
      stopScatteringAll = specStopScatteringAll,
      createFusion = specCreateFusion cfg,
      toggleFusionGathering = specToggleFusionGathering,
      removeFusion = specRemoveFusion,
      messageFragmentsReduceText = reduceText\<rparr>"


section \<open>A concrete session\<close>

text \<open>
  A session for the closed statements below: the store of the specification with a
  registry whose factory \<^verbatim>\<open>fuse\<close> is auto-runnable, and a view in which that factory, a
  model and a success callback are chosen. Three rays are scattered; the first two have
  finished and the third is still generating (\<open>busyWorld\<close>) or has finished too
  (\<open>settledWorld\<close>).
\<close>

definition demoCfg :: SpecConfig where
  "demoCfg = \<lparr>maxRays = 8, autoRunnable = (\<lambda>fid. fid = ''fuse'')\<rparr>"

definition demoEnv :: BeamEnv where
  "demoEnv = specEnv demoCfg (\<lambda>fs sep. concat fs)"

definition demoWorld :: "bool \<Rightarrow> BeamWorld" where
  "demoWorld autoStart =
     (initWorld autoStart)
       \<lparr>store := initStore\<lparr>currentFactoryId := Some ''fuse'', currentGatherLlmId := Some ''m1'',
                           onSuccessCallback := Some ()\<rparr>\<rparr>"

definition RayJob :: "nat \<Rightarrow> job_event \<Rightarrow> BeamEvent" where
  "RayJob i ev = StoreUpdate (rayDeliver i ev)"

definition RayRestart :: "nat \<Rightarrow> BeamEvent" where
  "RayRestart i = StoreUpdate (rayRestart i)"

definition FusionJob :: "nat \<Rightarrow> job_event \<Rightarrow> BeamEvent" where
  "FusionJob fid ev = StoreUpdate (fusionDeliver fid ev)"

definition scatterThree :: "BeamEvent list" where
  "scatterThree =
     [RaySetCount 3, ScatterStart False,
      RayJob 0 (Delta ''a''), RayJob 0 JobDone,
      RayJob 1 (Delta ''b''), RayJob 1 JobDone,
      RayJob 2 (Delta ''c'')]"

definition busyWorld :: "bool \<Rightarrow> BeamWorld" where
  "busyWorld autoStart = run demoEnv scatterThree (demoWorld autoStart)"

definition settledWorld :: "bool \<Rightarrow> BeamWorld" where
  "settledWorld autoStart = run demoEnv (scatterThree @ [RayJob 2 JobDone]) (demoWorld autoStart)"

text \<open>
  \<open>pendingWorld\<close>: the user has asked for a fusion while the third ray is generating,
  and the confirmation is pending. \<open>rearmedPending\<close>: all three rays have finished,
  the auto-merge has fired, the first ray has been restarted on its own and the user has
  asked for another fusion. \<open>unconfiguredWorld\<close>: a finished scatter pass of two rays
  with no factory and no model chosen.
\<close>

definition pendingWorld :: "bool \<Rightarrow> BeamWorld" where
  "pendingWorld autoStart = run demoEnv (scatterThree @ [AddFusion]) (demoWorld autoStart)"

definition rearmedPending :: BeamWorld where
  "rearmedPending =
     run demoEnv (scatterThree @ [RayJob 2 JobDone, RayRestart 0, AddFusion]) (demoWorld True)"

definition scatterTwo :: "BeamEvent list" where
  "scatterTwo =
     [RaySetCount 2, ScatterStart False,
      RayJob 0 (Delta ''a''), RayJob 0 JobDone,
      RayJob 1 (Delta ''b''), RayJob 1 JobDone]"

definition unconfiguredWorld :: BeamWorld where
  "unconfiguredWorld = run demoEnv scatterTwo (initWorld True)"

text \<open>
  \<open>readyWorld\<close>: the last of the three rays has just delivered its final event and
  the view has not rendered yet. \<open>completedPending\<close>: the same while the confirmation is
  pending.
\<close>

definition readyWorld :: BeamWorld where
  "readyWorld = dispatch demoEnv (RayJob 2 JobDone) (busyWorld True)"

definition completedPending :: "bool \<Rightarrow> BeamWorld" where
  "completedPending autoStart = dispatch demoEnv (RayJob 2 JobDone) (pendingWorld autoStart)"

text \<open>
  \<open>emptyFusionWorld\<close>: the automatically created fusion has completed without
  delivering any content. \<open>doneFusionWorld\<close>: it has delivered its content and
  completed.
\<close>

definition emptyFusionWorld :: BeamWorld where
  "emptyFusionWorld = step demoEnv (FusionJob 3 JobDone) (settledWorld True)"


text \<open>
  \<open>stoppedPending\<close>: the world in which the confirm callback of \<open>pendingWorld\<close>
  makes its call of \<^verbatim>\<open>handleCreateFusion\<close> (line 109): the confirmation cleared and the
  scatter stopped. \<open>completedRearmed\<close>: in \<open>rearmedPending\<close> the restarted ray has
  delivered its content and its final event, and the view has not rendered yet.
\<close>

definition stoppedPending :: "bool \<Rightarrow> BeamWorld" where
  "stoppedPending autoStart =
     ((pendingWorld autoStart)\<lparr>warnIsScattering := False\<rparr>)
       \<lparr>store := stopScatteringAll demoEnv (store (pendingWorld autoStart))\<rparr>"

definition completedRearmed :: BeamWorld where
  "completedRearmed =
     dispatch demoEnv (RayJob 0 JobDone) (step demoEnv (RayJob 0 (Delta ''z'')) rearmedPending)"

text \<open>
  The same session over a registry whose factory is not auto-runnable, all three rays
  finished.
\<close>

definition manualCfg :: SpecConfig where
  "manualCfg = \<lparr>maxRays = 8, autoRunnable = (\<lambda>fid. False)\<rparr>"

definition manualEnv :: BeamEnv where
  "manualEnv = specEnv manualCfg (\<lambda>fs sep. concat fs)"

definition manualSettled :: BeamWorld where
  "manualSettled = run manualEnv (scatterThree @ [RayJob 2 JobDone]) (demoWorld True)"

text \<open>
  A second scatter pass after the first: every ray is restarted, delivers and finishes;
  then one ray is restarted on its own and finishes again.
\<close>

definition secondPass :: "BeamEvent list" where
  "secondPass =
     [RayJob 0 (Delta ''x''), RayJob 0 JobDone,
      RayJob 1 (Delta ''y''), RayJob 1 JobDone,
      RayJob 2 (Delta ''z''), RayJob 2 JobDone,
      RayRestart 1, RayJob 1 (Delta ''y2''), RayJob 1 JobDone]"

section \<open>Basic facts about the view\<close>

lemma render_simps:
  "r_isScattering (render w) = isScattering (store w)"
  "r_canGather (render w) = canGather (store w)"
  "r_raysCount (render w) = length (rays (store w))"
  "r_gatherAutoStartAfterScatter (render w) = gatherAutoStartAfterScatter w"
  "r_hasAutoMerged (render w) = hasAutoMerged w"
  "r_warnIsScattering (render w) = warnIsScattering w"
  by (simp_all add: render_def)

lemma confirm_flags:
  "gatherAutoStartAfterScatter (handleStartMergeConfirmation env rn w) = gatherAutoStartAfterScatter w"
  "hasAutoMerged (handleStartMergeConfirmation env rn w) = hasAutoMerged w"
  "successCalls (handleStartMergeConfirmation env rn w) = successCalls w"
  "clipboard (handleStartMergeConfirmation env rn w) = clipboard w"
  "warnIsScattering (handleStartMergeConfirmation env rn w) = r_isScattering rn"
  by (simp_all add: handleStartMergeConfirmation_def handleCreateFusion_def)

text \<open>
  The confirm callback of a render in which \<^verbatim>\<open>isScattering\<close> is true stops the scatter
  and then takes the early return of \<^verbatim>\<open>handleCreateFusion\<close>; the one of a render in
  which it is false stops the scatter and calls \<^verbatim>\<open>createFusion\<close>.
\<close>

lemma confirm_while_scattering:
  "r_isScattering rn \<Longrightarrow>
     handleStartMergeConfirmation env rn w =
       (w\<lparr>store := stopScatteringAll env (store w)\<rparr>)\<lparr>warnIsScattering := True\<rparr>"
  by (simp add: handleStartMergeConfirmation_def handleCreateFusion_def)

lemma confirm_while_idle:
  "\<not> r_isScattering rn \<Longrightarrow>
     handleStartMergeConfirmation env rn w =
       (w\<lparr>warnIsScattering := False\<rparr>)
         \<lparr>store := createFusion env (gatherAutoStartAfterScatter w)
                     (stopScatteringAll env (store w))\<rparr>"
  by (simp add: handleStartMergeConfirmation_def handleCreateFusion_def)

lemma commit_cases:
  "commit env w =
     (if shallAutoMerge (render w)
      then handleStartMergeConfirmation env (render w) (w\<lparr>hasAutoMerged := True\<rparr>)
      else if shallResumeMerge (render w) then handleStartMergeConfirmation env (render w) w
      else w)"
  by (auto simp: commit_def Let_def effectAutoMerge_def effectResumeMerge_def
      shallAutoMerge_def shallResumeMerge_def)

lemma commit_fixed:
  "\<not> shallAutoMerge (render w) \<Longrightarrow> \<not> shallResumeMerge (render w) \<Longrightarrow> commit env w = w"
  by (simp add: commit_cases)

text \<open>
  One round of effects settles the view: in the render that follows, neither flag is
  true, so rendering once more changes nothing.
\<close>

lemma commit_idem: "commit env (commit env w) = commit env w"
proof (cases "shallAutoMerge (render w)")
  case True
  let ?w' = "handleStartMergeConfirmation env (render w) (w\<lparr>hasAutoMerged := True\<rparr>)"
  from True have eq: "commit env w = ?w'" by (simp add: commit_cases)
  from True have "hasAutoMerged ?w'" "gatherAutoStartAfterScatter ?w'"
    by (simp_all add: confirm_flags shallAutoMerge_def render_simps)
  then have "\<not> shallAutoMerge (render ?w')" "\<not> shallResumeMerge (render ?w')"
    by (simp_all add: shallAutoMerge_def shallResumeMerge_def render_simps)
  then show ?thesis unfolding eq by (rule commit_fixed)
next
  case noAuto: False
  show ?thesis
  proof (cases "shallResumeMerge (render w)")
    case True
    let ?w' = "handleStartMergeConfirmation env (render w) w"
    from True noAuto have eq: "commit env w = ?w'" by (simp add: commit_cases)
    from True have "\<not> warnIsScattering ?w'" "\<not> gatherAutoStartAfterScatter ?w'"
      by (simp_all add: confirm_flags shallResumeMerge_def render_simps)
    then have "\<not> shallAutoMerge (render ?w')" "\<not> shallResumeMerge (render ?w')"
      by (simp_all add: shallAutoMerge_def shallResumeMerge_def render_simps)
    then show ?thesis unfolding eq by (rule commit_fixed)
  next
    case False
    with noAuto show ?thesis by (simp add: commit_fixed)
  qed
qed

lemma dispatch_hasAutoMerged:
  "\<not> isRearm ev \<Longrightarrow> hasAutoMerged (dispatch env ev w) = hasAutoMerged w"
  by (cases ev)
     (simp_all add: handleRaySetCount_def handleRayIncreaseCount_def handleRaysOperation_def
       handleFusionUse_def handleFusionCopyToClipboard_def handleStartMergeDenial_def
       handleFusionRemove_def handleToggleFusionGather_def
       handleCreateFusion_def confirm_flags Let_def split: option.splits rays_operation.splits)

lemma commit_hasAutoMerged:
  "hasAutoMerged (commit env w) = (hasAutoMerged w \<or> shallAutoMerge (render w))"
  by (auto simp: commit_cases confirm_flags shallAutoMerge_def render_simps)

lemma not_shall_if_merged: "hasAutoMerged w \<Longrightarrow> \<not> shallAutoMerge (render w)"
  by (simp add: shallAutoMerge_def render_simps)

lemma firings_zero:
  "hasAutoMerged w \<Longrightarrow> \<forall>ev\<in>set evs. \<not> isRearm ev \<Longrightarrow> autoMergeFirings env evs w = 0"
proof (induction evs arbitrary: w)
  case Nil
  then show ?case by simp
next
  case (Cons ev evs)
  from Cons.prems have d: "hasAutoMerged (dispatch env ev w)"
    by (simp add: dispatch_hasAutoMerged)
  then have "hasAutoMerged (step env ev w)"
    by (simp add: step_def commit_hasAutoMerged)
  with Cons have "autoMergeFirings env evs (step env ev w) = 0" by simp
  with d show ?case by (simp add: not_shall_if_merged)
qed

lemma firings_le_one:
  "\<forall>ev\<in>set evs. \<not> isRearm ev \<Longrightarrow> autoMergeFirings env (ev0 # evs) w \<le> 1"
proof (induction evs arbitrary: w ev0)
  case Nil
  then show ?case by simp
next
  case (Cons ev evs)
  show ?case
  proof (cases "shallAutoMerge (render (dispatch env ev0 w))")
    case True
    then have "hasAutoMerged (step env ev0 w)"
      by (simp add: step_def commit_hasAutoMerged)
    with Cons.prems have "autoMergeFirings env (ev # evs) (step env ev0 w) = 0"
      by (intro firings_zero) simp_all
    with True show ?thesis by simp
  next
    case False
    from Cons.prems have "autoMergeFirings env (ev # evs) (step env ev0 w) \<le> 1"
      by (intro Cons.IH) simp
    with False show ?thesis by simp
  qed
qed

lemma auto_merge_fires:
  assumes "gatherAutoStartAfterScatter w" "canGather (store w)"
    "\<not> isScattering (store w)" "\<not> hasAutoMerged w"
  shows "commit env w =
           w\<lparr>hasAutoMerged := True, warnIsScattering := False,
             store := createFusion env True (stopScatteringAll env (store w))\<rparr>"
proof -
  from assms have "shallAutoMerge (render w)"
    by (simp add: shallAutoMerge_def render_simps)
  with assms show ?thesis
    by (simp add: commit_cases confirm_while_idle render_simps)
qed

lemma handleFusionUse_frame:
  "store (handleFusionUse fid w) = store w"
  "gatherAutoStartAfterScatter (handleFusionUse fid w) = gatherAutoStartAfterScatter w"
  "hasAutoMerged (handleFusionUse fid w) = hasAutoMerged w"
  "warnIsScattering (handleFusionUse fid w) = warnIsScattering w"
  "clipboard (handleFusionUse fid w) = clipboard w"
  by (simp_all add: handleFusionUse_def split: option.splits)

lemma handleRaysOperation_frame:
  "store (handleRaysOperation env operation w) = store w"
  "gatherAutoStartAfterScatter (handleRaysOperation env operation w) = gatherAutoStartAfterScatter w"
  "hasAutoMerged (handleRaysOperation env operation w) = hasAutoMerged w"
  "warnIsScattering (handleRaysOperation env operation w) = warnIsScattering w"
  by (simp_all add: handleRaysOperation_def Let_def split: option.splits rays_operation.splits)

lemma handleFusionUse_calls:
  "successCalls (handleFusionUse fid w) =
     successCalls w @
       (case find (\<lambda>fusion. fusionId fusion = fid) (fusions (store w)) of
          None \<Rightarrow> []
        | Some fusion \<Rightarrow>
           (case outputDMessage fusion of
              None \<Rightarrow> []
            | Some m \<Rightarrow> if fragments m \<noteq> [] \<and> onSuccessCallback (store w) \<noteq> None then [m] else []))"
  by (simp add: handleFusionUse_def split: option.splits)

lemma handleRaysOperation_calls:
  "successCalls (handleRaysOperation env operation w) =
     successCalls w @
       (if operation = Use \<and> concat (map (\<lambda>ray. fragments (message ray)) (rays (store w))) \<noteq> []
           \<and> onSuccessCallback (store w) \<noteq> None
        then [\<lparr>fragments = concat (map (\<lambda>ray. fragments (message ray)) (rays (store w)))\<rparr>]
        else [])"
  by (simp add: handleRaysOperation_def Let_def split: option.splits rays_operation.splits)




section \<open>Basic facts about the store of the specification\<close>

lemma specEnv_simps:
  "setRayCount (specEnv cfg rt) = specSetRayCount cfg"
  "startScatteringAll (specEnv cfg rt) = specStartScatteringAll"
  "stopScatteringAll (specEnv cfg rt) = specStopScatteringAll"
  "createFusion (specEnv cfg rt) = specCreateFusion cfg"
  "toggleFusionGathering (specEnv cfg rt) = specToggleFusionGathering"
  "removeFusion (specEnv cfg rt) = specRemoveFusion"
  "messageFragmentsReduceText (specEnv cfg rt) = rt"
  by (simp_all add: specEnv_def)

lemma newFusion_fields:
  "fusionId (newFusion cfg a s fid llm) = nextId s"
  "factoryId (newFusion cfg a s fid llm) = fid"
  "llmId (newFusion cfg a s fid llm) = Some llm"
  "stage (newFusion cfg a s fid llm) = (if autoRunnable cfg fid \<and> a then FusionFusing else FusionIdle)"
  by (simp_all add: newFusion_def createBFusion_def fusionStart_def)

lemma specCreateFusion_eligible:
  assumes "currentFactoryId s = Some fid" "currentGatherLlmId s = Some llm" "raysReady s \<ge> 2"
  shows "specCreateFusion cfg a s =
           s\<lparr>fusions := fusions s @ [newFusion cfg a s fid llm], nextId := Suc (nextId s)\<rparr>"
  using assms by (simp add: specCreateFusion_def)

lemma specCreateFusion_ineligible: "\<not> canGather s \<Longrightarrow> specCreateFusion cfg a s = s"
  by (auto simp: canGather_def specCreateFusion_def split: option.splits)

lemma rayScatterStop_ready: "rayIsReady (rayScatterStop r) = rayIsReady r"
  by (auto simp: rayScatterStop_def rayIsReady_def rayIsScattering_def)

lemma rayScatterStop_not_scattering: "\<not> rayIsScattering (rayScatterStop r)"
  by (simp add: rayScatterStop_def rayIsScattering_def)

lemma specStopScatteringAll_frame:
  "rays (specStopScatteringAll s) = map rayScatterStop (rays s)"
  "fusions (specStopScatteringAll s) = fusions s"
  "isScattering (specStopScatteringAll s) = False"
  "raysReady (specStopScatteringAll s) = length (filter rayIsReady (rays s))"
  "currentFactoryId (specStopScatteringAll s) = currentFactoryId s"
  "currentGatherLlmId (specStopScatteringAll s) = currentGatherLlmId s"
  "onSuccessCallback (specStopScatteringAll s) = onSuccessCallback s"
  "nextId (specStopScatteringAll s) = nextId s"
  "cancelledJobs (specStopScatteringAll s) =
     cancelledJobs s @ map rayId (filter rayIsScattering (rays s))"
  by (simp_all add: specStopScatteringAll_def syncRaysStateToScatter_def filter_map comp_def
      rayScatterStop_ready list_ex_iff rayScatterStop_not_scattering)

text \<open>On a store in step with its rays, with no ray generating, nothing is left to stop.\<close>

lemma specStopScatteringAll_idle:
  assumes "scatterSynced s" "\<not> isScattering s"
  shows "specStopScatteringAll s = s"
proof -
  from assms have none: "\<forall>r\<in>set (rays s). \<not> rayIsScattering r"
    by (simp add: scatterSynced_def list_ex_iff)
  then have "map rayScatterStop (rays s) = rays s"
    by (simp add: map_idI rayScatterStop_def)
  moreover from none have "filter rayIsScattering (rays s) = []"
    by (simp add: filter_empty_conv)
  ultimately show ?thesis
    using assms by (simp add: specStopScatteringAll_def syncRaysStateToScatter_def scatterSynced_def)
qed

lemma syncRaysStateToScatter_synced: "scatterSynced (syncRaysStateToScatter s)"
  by (simp add: scatterSynced_def syncRaysStateToScatter_def)

lemma scatterSynced_fusions_update:
  "scatterSynced (s\<lparr>fusions := fs\<rparr>) = scatterSynced s"
  "scatterSynced (s\<lparr>fusions := fs, nextId := k\<rparr>) = scatterSynced s"
  "scatterSynced (s\<lparr>fusions := fs, cancelledJobs := cs\<rparr>) = scatterSynced s"
  by (simp_all add: scatterSynced_def)

lemma specCreateFusion_synced: "scatterSynced s \<Longrightarrow> scatterSynced (specCreateFusion cfg a s)"
  by (simp add: specCreateFusion_def scatterSynced_fusions_update split: option.splits)

text \<open>
  The actions of the store keep the flags in step with the rays, and so do the job events
  and the restart of one ray; hence so does every event of the view over this store, as
  long as changes from elsewhere do.
\<close>

lemma spec_actions_synced:
  "scatterSynced (specSetRayCount cfg n s)"
  "scatterSynced (specStartScatteringAll restart s)"
  "scatterSynced (specStopScatteringAll s)"
  "scatterSynced (rayRestart i s)"
  "scatterSynced (rayDeliver i ev s)"
  "scatterSynced s \<Longrightarrow> scatterSynced (specToggleFusionGathering fid s)"
  "scatterSynced s \<Longrightarrow> scatterSynced (specRemoveFusion fid s)"
  "scatterSynced s \<Longrightarrow> scatterSynced (fusionDeliver fid ev s)"
  by (simp_all add: specSetRayCount_def specStartScatteringAll_def specStopScatteringAll_def
      rayRestart_def rayDeliver_def specToggleFusionGathering_def specRemoveFusion_def
      fusionDeliver_def Let_def syncRaysStateToScatter_synced scatterSynced_fusions_update)

lemma dispatch_synced:
  assumes "scatterSynced (store w)" "\<And>f. ev = StoreUpdate f \<Longrightarrow> scatterSynced (f (store w))"
  shows "scatterSynced (store (dispatch (specEnv cfg rt) ev w))"
  using assms
  by (cases ev)
     (simp_all add: handleRaySetCount_def handleRayIncreaseCount_def handleRaysOperation_frame
       handleFusionUse_frame handleFusionCopyToClipboard_def handleStartMergeDenial_def
       handleScatterStart_def handleCreateFusion_def handleStartMergeConfirmation_def
       handleFusionRemove_def handleToggleFusionGather_def specEnv_simps
       spec_actions_synced specCreateFusion_synced split: option.splits)

lemma commit_synced:
  assumes "scatterSynced (store w)"
  shows "scatterSynced (store (commit (specEnv cfg rt) w))"
  using assms
  by (simp add: commit_cases handleStartMergeConfirmation_def handleCreateFusion_def
      specEnv_simps spec_actions_synced specCreateFusion_synced)

lemma step_synced:
  assumes "scatterSynced (store w)" "\<And>f. ev = StoreUpdate f \<Longrightarrow> scatterSynced (f (store w))"
  shows "scatterSynced (store (step (specEnv cfg rt) ev w))"
  unfolding step_def using assms by (intro commit_synced dispatch_synced)

lemma rayJobEvent_not_scattering: "\<not> rayIsScattering r \<Longrightarrow> rayJobEvent r ev = r"
  by (cases ev) simp_all

lemma rayJobEvents_not_scattering: "\<not> rayIsScattering r \<Longrightarrow> foldl rayJobEvent r evs = r"
  by (induction evs) (simp_all add: rayJobEvent_not_scattering)

lemma fusionJobEvent_not_fusing: "\<not> fusionIsFusing f \<Longrightarrow> fusionJobEvent f ev = f"
  by (cases ev) simp_all

lemma fusionJobEvents_not_fusing: "\<not> fusionIsFusing f \<Longrightarrow> foldl fusionJobEvent f evs = f"
  by (induction evs) (simp_all add: fusionJobEvent_not_fusing)

section \<open>Eligibility\<close>

text \<open>
  Claim C5. In every state of the store, and so in every reachable one, the
  \<^verbatim>\<open>canGather\<close> that a render computes is true if and only if the ready-ray count
  \<^verbatim>\<open>raysReady\<close> is at least 2, a fusion-factory id is selected and a target model id is
  selected.
\<close>

theorem canGather_iff:
  "r_canGather (render w) \<longleftrightarrow>
     2 \<le> raysReady (store w) \<and> currentFactoryId (store w) \<noteq> None
       \<and> currentGatherLlmId (store w) \<noteq> None"
  by (simp add: render_def canGather_def)


section \<open>Requesting a fusion\<close>

text \<open>
  Claim C2, as amended. A request to create a fusion that the user makes, that is, one
  made through the callback of the current render, on a store whose scattering flag is in
  step with its rays, branches on whether any ray is generating. If one is, the store is
  left as it is (no fusion is created) and the pending confirmation is raised. If none is,
  the store's \<^verbatim>\<open>createFusion\<close> is called at once on the current store and no confirmation
  is raised; over the store of the specification, with a factory and a model selected and
  at least two ready rays, this appends exactly one new fusion.
\<close>

theorem handleCreateFusion_branches:
  assumes "scatterSynced (store w)"
  shows "(list_ex rayIsScattering (rays (store w)) \<longrightarrow>
            handleCreateFusion env (render w) w = w\<lparr>warnIsScattering := True\<rparr>
          \<and> store (handleCreateFusion env (render w) w) = store w
          \<and> warnIsScattering (handleCreateFusion env (render w) w))
       \<and> (\<not> list_ex rayIsScattering (rays (store w)) \<longrightarrow>
            handleCreateFusion env (render w) w =
              w\<lparr>store := createFusion env (gatherAutoStartAfterScatter w) (store w)\<rparr>
          \<and> warnIsScattering (handleCreateFusion env (render w) w) = warnIsScattering w)
       \<and> (\<not> list_ex rayIsScattering (rays (store w))
            \<and> currentFactoryId (store w) = Some fid \<and> currentGatherLlmId (store w) = Some llm
            \<and> raysReady (store w) \<ge> 2 \<longrightarrow>
            fusions (store (handleCreateFusion (specEnv cfg rt) (render w) w)) =
              fusions (store w) @ [newFusion cfg (gatherAutoStartAfterScatter w) (store w) fid llm])"
proof -
  from assms have sc: "isScattering (store w) = list_ex rayIsScattering (rays (store w))"
    by (simp add: scatterSynced_def)
  show ?thesis
  proof (cases "list_ex rayIsScattering (rays (store w))")
    case True
    with sc show ?thesis by (simp add: handleCreateFusion_def render_simps)
  next
    case False
    with sc have eq: "handleCreateFusion env' (render w) w =
        w\<lparr>store := createFusion env' (gatherAutoStartAfterScatter w) (store w)\<rparr>" for env'
      by (simp add: handleCreateFusion_def render_simps)
    show ?thesis
      using False unfolding eq by (simp add: specEnv_simps specCreateFusion_eligible)
  qed
qed

theorem handleCreateFusion_branches_witness:
  "scatterSynced (store (busyWorld False))
   \<and> list_ex rayIsScattering (rays (store (busyWorld False)))
   \<and> handleCreateFusion demoEnv (render (busyWorld False)) (busyWorld False)
        = (busyWorld False)\<lparr>warnIsScattering := True\<rparr>
   \<and> scatterSynced (store (settledWorld False))
   \<and> \<not> list_ex rayIsScattering (rays (store (settledWorld False)))
   \<and> length (fusions (store (handleCreateFusion demoEnv (render (settledWorld False))
        (settledWorld False)))) = 1"
proof -
  have a: "scatterSynced (store (busyWorld False))" by code_simp
  have b: "list_ex rayIsScattering (rays (store (busyWorld False)))" by code_simp
  have c: "scatterSynced (store (settledWorld False))" by code_simp
  have d: "\<not> list_ex rayIsScattering (rays (store (settledWorld False)))" by code_simp
  have e: "currentFactoryId (store (settledWorld False)) = Some ''fuse''" by code_simp
  have f: "currentGatherLlmId (store (settledWorld False)) = Some ''m1''" by code_simp
  have g: "raysReady (store (settledWorld False)) \<ge> 2" by code_simp
  have h: "fusions (store (settledWorld False)) = []" by code_simp
  from handleCreateFusion_branches[OF a, of demoEnv] b
  have 1: "handleCreateFusion demoEnv (render (busyWorld False)) (busyWorld False)
        = (busyWorld False)\<lparr>warnIsScattering := True\<rparr>" by blast
  from handleCreateFusion_branches[OF c, of _ "''fuse''" "''m1''" demoCfg "\<lambda>fs sep. concat fs"]
    d e f g
  have 2: "fusions (store (handleCreateFusion demoEnv (render (settledWorld False))
             (settledWorld False))) =
           fusions (store (settledWorld False)) @
             [newFusion demoCfg (gatherAutoStartAfterScatter (settledWorld False))
                (store (settledWorld False)) ''fuse'' ''m1'']"
    unfolding demoEnv_def by blast
  show ?thesis using a b c d 1 2 h by simp
qed


text \<open>
  The claim as stated fails at two places. A request made while no ray is generating, but
  with no factory and no model chosen, creates no fusion: creation is gated. And the call
  of \<^verbatim>\<open>handleCreateFusion\<close> that the confirm callback makes after stopping the scatter
  (line 109) finds no ray generating and two rays ready, yet it creates no fusion and
  raises the confirmation: it tests the \<^verbatim>\<open>isScattering\<close> of the render it was made in.
\<close>

theorem handleCreateFusion_counterexample:
  "\<not> list_ex rayIsScattering (rays (store unconfiguredWorld))
   \<and> handleCreateFusion demoEnv (render unconfiguredWorld) unconfiguredWorld = unconfiguredWorld
   \<and> fusions (store unconfiguredWorld) = []
   \<and> handleStartMergeConfirmation demoEnv (render (pendingWorld False)) (pendingWorld False)
       = handleCreateFusion demoEnv (render (pendingWorld False)) (stoppedPending False)
   \<and> \<not> list_ex rayIsScattering (rays (store (stoppedPending False)))
   \<and> canGather (store (stoppedPending False))
   \<and> \<not> warnIsScattering (stoppedPending False)
   \<and> handleCreateFusion demoEnv (render (pendingWorld False)) (stoppedPending False)
       = (stoppedPending False)\<lparr>warnIsScattering := True\<rparr>
   \<and> fusions (store (handleCreateFusion demoEnv (render (pendingWorld False))
        (stoppedPending False))) = []"
  by code_simp


section \<open>The automatic merge\<close>

text \<open>
  Claim C1, as amended. When auto-start-on-scatter-completion is enabled, \<^verbatim>\<open>canGather\<close>
  holds (at least two ready rays, a factory and a model selected), no ray is generating
  and the auto-merge has not fired since the view was mounted or a scatter was last
  started, the effects of the next render set \<^verbatim>\<open>hasAutoMerged\<close>, clear the pending
  confirmation and call the store's \<^verbatim>\<open>createFusion\<close> exactly once, after
  \<^verbatim>\<open>stopScatteringAll\<close>; over the store of the specification this appends exactly one
  fusion, which is started if its factory is auto-runnable and idle otherwise, and leaves
  the rays as they are. When one of the four conditions fails, the effect does nothing.
  After a scatter start, with either value of \<^verbatim>\<open>restart\<close>, or a remount, the effect's
  body runs at most once along any sequence of events that holds no further scatter start
  and no remount; a scatter start with either value of \<^verbatim>\<open>restart\<close> and a remount clear
  \<^verbatim>\<open>hasAutoMerged\<close>, and no other event of the view does.
\<close>

theorem auto_merge_once:
  "(gatherAutoStartAfterScatter w \<and> canGather (store w) \<and> \<not> isScattering (store w)
      \<and> \<not> hasAutoMerged w \<longrightarrow>
        commit env w =
          w\<lparr>hasAutoMerged := True, warnIsScattering := False,
            store := createFusion env True (stopScatteringAll env (store w))\<rparr>)
   \<and> (scatterSynced (store w) \<and> gatherAutoStartAfterScatter w
      \<and> currentFactoryId (store w) = Some fid \<and> currentGatherLlmId (store w) = Some llm
      \<and> 2 \<le> raysReady (store w) \<and> \<not> isScattering (store w) \<and> \<not> hasAutoMerged w \<longrightarrow>
        fusions (store (commit (specEnv cfg rt) w))
          = fusions (store w) @ [newFusion cfg True (store w) fid llm]
      \<and> stage (newFusion cfg True (store w) fid llm)
          = (if autoRunnable cfg fid then FusionFusing else FusionIdle)
      \<and> rays (store (commit (specEnv cfg rt) w)) = rays (store w))
   \<and> (\<not> (gatherAutoStartAfterScatter w \<and> canGather (store w) \<and> \<not> isScattering (store w)
          \<and> \<not> hasAutoMerged w) \<longrightarrow>
        effectAutoMerge env (render w) w = w)
   \<and> ((\<forall>e\<in>set evs. \<not> isRearm e) \<longrightarrow>
         autoMergeFirings env (ScatterStart restart # evs) w \<le> 1
       \<and> autoMergeFirings env (Remount # evs) w \<le> 1)
   \<and> \<not> hasAutoMerged (handleScatterStart env restart w)
   \<and> \<not> hasAutoMerged (dispatch env Remount w)
   \<and> (hasAutoMerged w \<and> \<not> isRearm ev \<longrightarrow> hasAutoMerged (step env ev w))"
proof -
  have 1: "commit env w =
          w\<lparr>hasAutoMerged := True, warnIsScattering := False,
            store := createFusion env True (stopScatteringAll env (store w))\<rparr>"
    if "gatherAutoStartAfterScatter w" "canGather (store w)" "\<not> isScattering (store w)"
      "\<not> hasAutoMerged w"
    using that by (rule auto_merge_fires)
  have 2: "fusions (store (commit (specEnv cfg rt) w))
          = fusions (store w) @ [newFusion cfg True (store w) fid llm]
      \<and> stage (newFusion cfg True (store w) fid llm)
          = (if autoRunnable cfg fid then FusionFusing else FusionIdle)
      \<and> rays (store (commit (specEnv cfg rt) w)) = rays (store w)"
    if "scatterSynced (store w)" "gatherAutoStartAfterScatter w"
      "currentFactoryId (store w) = Some fid" "currentGatherLlmId (store w) = Some llm"
      "2 \<le> raysReady (store w)" "\<not> isScattering (store w)" "\<not> hasAutoMerged w"
  proof -
    from that have "canGather (store w)" by (simp add: canGather_def)
    with that have "commit (specEnv cfg rt) w =
          w\<lparr>hasAutoMerged := True, warnIsScattering := False,
            store := specCreateFusion cfg True (specStopScatteringAll (store w))\<rparr>"
      by (simp add: auto_merge_fires specEnv_simps)
    with that show ?thesis
      by (simp add: specStopScatteringAll_idle specCreateFusion_eligible newFusion_fields)
  qed
  have 3: "effectAutoMerge env (render w) w = w"
    if "\<not> (gatherAutoStartAfterScatter w \<and> canGather (store w) \<and> \<not> isScattering (store w)
          \<and> \<not> hasAutoMerged w)"
    using that by (auto simp: effectAutoMerge_def shallAutoMerge_def render_simps)
  have 4: "autoMergeFirings env (ev0 # evs) w \<le> 1"
    if "\<forall>e\<in>set evs. \<not> isRearm e" for ev0
    using that by (rule firings_le_one)
  have 5: "\<not> hasAutoMerged (handleScatterStart env restart w)"
    "\<not> hasAutoMerged (dispatch env Remount w)"
    by (simp_all add: handleScatterStart_def)
  have 6: "hasAutoMerged (step env ev w)" if "hasAutoMerged w" "\<not> isRearm ev"
    using that by (simp add: step_def commit_hasAutoMerged dispatch_hasAutoMerged)
  from 1 2 3 4[of "ScatterStart restart"] 4[of Remount] 5 6 show ?thesis by blast
qed

theorem auto_merge_once_witness:
  "scatterSynced (store readyWorld) \<and> gatherAutoStartAfterScatter readyWorld
   \<and> raysReady (store readyWorld) = 3 \<and> \<not> isScattering (store readyWorld)
   \<and> \<not> hasAutoMerged readyWorld \<and> fusions (store readyWorld) = []
   \<and> length (fusions (store (commit demoEnv readyWorld))) = 1
   \<and> stage (last (fusions (store (commit demoEnv readyWorld)))) = FusionFusing
   \<and> hasAutoMerged (commit demoEnv readyWorld)
   \<and> effectAutoMerge demoEnv (render (settledWorld True)) (settledWorld True) = settledWorld True
   \<and> autoMergeFirings demoEnv (ScatterStart True # secondPass) (settledWorld True) = 1
   \<and> autoMergeFirings demoEnv (ScatterStart True # secondPass) (settledWorld True) \<le> 1
   \<and> length (fusions (store (run demoEnv (ScatterStart True # secondPass) (settledWorld True)))) = 2
   \<and> hasAutoMerged (step demoEnv (RayRestart 0) (settledWorld True))"
proof -
  let ?rt = "\<lambda>(fs :: string list) (sep :: string option). concat fs"
  have a: "scatterSynced (store readyWorld) \<and> gatherAutoStartAfterScatter readyWorld
      \<and> currentFactoryId (store readyWorld) = Some ''fuse''
      \<and> currentGatherLlmId (store readyWorld) = Some ''m1''
      \<and> 2 \<le> raysReady (store readyWorld) \<and> \<not> isScattering (store readyWorld)
      \<and> \<not> hasAutoMerged readyWorld"
    by code_simp
  then have a': "gatherAutoStartAfterScatter readyWorld \<and> canGather (store readyWorld)
      \<and> \<not> isScattering (store readyWorld) \<and> \<not> hasAutoMerged readyWorld"
    by (simp add: canGather_def)
  have b: "raysReady (store readyWorld) = 3" "fusions (store readyWorld) = []"
    "autoRunnable demoCfg ''fuse''" "hasAutoMerged (settledWorld True)"
    "autoMergeFirings demoEnv (ScatterStart True # secondPass) (settledWorld True) = 1"
    "length (fusions (store (run demoEnv (ScatterStart True # secondPass) (settledWorld True)))) = 2"
    by code_simp+
  have c: "\<forall>e\<in>set secondPass. \<not> isRearm e"
    by (simp add: secondPass_def RayJob_def RayRestart_def)
  have d: "\<not> isRearm (RayRestart 0)" by (simp add: RayRestart_def)
  note t = auto_merge_once[of readyWorld demoEnv "''fuse''" "''m1''" demoCfg ?rt]
  from t a have "fusions (store (commit (specEnv demoCfg ?rt) readyWorld)) =
      fusions (store readyWorld) @ [newFusion demoCfg True (store readyWorld) ''fuse'' ''m1'']"
    and "stage (newFusion demoCfg True (store readyWorld) ''fuse'' ''m1'')
           = (if autoRunnable demoCfg ''fuse'' then FusionFusing else FusionIdle)"
    by blast+
  moreover from t a' have "commit demoEnv readyWorld =
          readyWorld\<lparr>hasAutoMerged := True, warnIsScattering := False,
            store := createFusion demoEnv True (stopScatteringAll demoEnv (store readyWorld))\<rparr>"
    by blast
  then have "hasAutoMerged (commit demoEnv readyWorld)" by simp
  moreover from auto_merge_once[of "settledWorld True" demoEnv "''fuse''" "''m1''" demoCfg ?rt
      secondPass True "RayRestart 0"] b c d
  have "effectAutoMerge demoEnv (render (settledWorld True)) (settledWorld True) = settledWorld True"
    and "autoMergeFirings demoEnv (ScatterStart True # secondPass) (settledWorld True) \<le> 1"
    and "hasAutoMerged (step demoEnv (RayRestart 0) (settledWorld True))"
    by blast+
  ultimately show ?thesis using a b by (simp add: demoEnv_def)
qed

text \<open>
  The claim as stated fails at four places. With two ready rays, nothing generating and
  auto-start enabled, but no factory and no model chosen, no fusion is created. Over a
  registry whose factory is not auto-runnable, the fusion that the auto-merge creates is
  idle, not started. A scatter start with \<^verbatim>\<open>restart = false\<close> after the pass has
  finished starts no ray, yet re-arms the auto-merge, which fires a second time and
  creates a second fusion. And so does a remount of the view after the pass has finished,
  with no scatter start at all.
\<close>

theorem auto_merge_counterexample:
  "gatherAutoStartAfterScatter unconfiguredWorld
   \<and> raysReady (store unconfiguredWorld) = 2
   \<and> length (filter rayIsReady (rays (store unconfiguredWorld))) = 2
   \<and> \<not> list_ex rayIsScattering (rays (store unconfiguredWorld))
   \<and> \<not> hasAutoMerged unconfiguredWorld
   \<and> fusions (store (commit demoEnv unconfiguredWorld)) = []
   \<and> autoMergeFirings manualEnv (scatterThree @ [RayJob 2 JobDone]) (demoWorld True) = 1
   \<and> map stage (fusions (store manualSettled)) = [FusionIdle]
   \<and> autoMergeFirings demoEnv (scatterTwo @ [ScatterStart False]) (demoWorld True) = 2
   \<and> length (fusions (store (run demoEnv (scatterTwo @ [ScatterStart False]) (demoWorld True)))) = 2
   \<and> rays (store (run demoEnv (scatterTwo @ [ScatterStart False]) (demoWorld True)))
       = rays (store (run demoEnv scatterTwo (demoWorld True)))
   \<and> autoMergeFirings demoEnv (scatterTwo @ [Remount]) (demoWorld True) = 2
   \<and> length (fusions (store (run demoEnv (scatterTwo @ [Remount]) (demoWorld True)))) = 2
   \<and> rays (store (run demoEnv (scatterTwo @ [Remount]) (demoWorld True)))
       = rays (store (run demoEnv scatterTwo (demoWorld True)))"
  by code_simp

section \<open>The merge confirmation\<close>

text \<open>
  Claim C3. Confirming the pending merge while a ray is generating: the callback runs
  \<^verbatim>\<open>stopScatteringAll\<close> and then \<^verbatim>\<open>handleCreateFusion\<close>, which still holds the
  \<^verbatim>\<open>isScattering\<close> of the render it was made in. So, whatever the store's actions do, the
  scatter is stopped, \<^verbatim>\<open>createFusion\<close> is not called and the confirmation is raised again.
  When auto-start-on-scatter-completion is enabled and the auto-merge has already fired,
  the effects of the following render do nothing either: the view rests with the
  confirmation pending and the fusions the stop has left.
\<close>

theorem confirm_while_generating:
  "(isScattering (store w) \<longrightarrow>
        handleStartMergeConfirmation env (render w) w
          = (w\<lparr>store := stopScatteringAll env (store w)\<rparr>)\<lparr>warnIsScattering := True\<rparr>)
   \<and> (isScattering (store w) \<and> warnIsScattering w \<and> gatherAutoStartAfterScatter w
        \<and> hasAutoMerged w \<longrightarrow>
        step env MergeConfirm w
          = (w\<lparr>store := stopScatteringAll env (store w)\<rparr>)\<lparr>warnIsScattering := True\<rparr>)"
proof -
  let ?w' = "(w\<lparr>store := stopScatteringAll env (store w)\<rparr>)\<lparr>warnIsScattering := True\<rparr>"
  have h: "handleStartMergeConfirmation env (render w) w = ?w'" if "isScattering (store w)"
    using that by (simp add: confirm_while_scattering render_simps)
  have 2: "step env MergeConfirm w = ?w'"
    if "isScattering (store w)" "warnIsScattering w" "gatherAutoStartAfterScatter w"
      "hasAutoMerged w"
  proof -
    from that have "dispatch env MergeConfirm w = ?w'"
      by (simp add: render_simps h)
    moreover from that have "\<not> shallAutoMerge (render ?w')" "\<not> shallResumeMerge (render ?w')"
      by (simp_all add: shallAutoMerge_def shallResumeMerge_def render_simps)
    ultimately show ?thesis by (simp add: step_def commit_fixed)
  qed
  from h 2 show ?thesis by simp
qed

theorem confirm_while_generating_witness:
  "isScattering (store rearmedPending) \<and> warnIsScattering rearmedPending
   \<and> gatherAutoStartAfterScatter rearmedPending \<and> hasAutoMerged rearmedPending
   \<and> canGather (store rearmedPending)
   \<and> length (fusions (store rearmedPending)) = 1
   \<and> length (fusions (store (step demoEnv MergeConfirm rearmedPending))) = 1
   \<and> warnIsScattering (step demoEnv MergeConfirm rearmedPending)
   \<and> \<not> list_ex rayIsScattering (rays (store (step demoEnv MergeConfirm rearmedPending)))"
proof -
  have a: "isScattering (store rearmedPending) \<and> warnIsScattering rearmedPending
      \<and> gatherAutoStartAfterScatter rearmedPending \<and> hasAutoMerged rearmedPending"
    by code_simp
  have b: "canGather (store rearmedPending)" "length (fusions (store rearmedPending)) = 1"
    by code_simp+
  from confirm_while_generating[of rearmedPending demoEnv] a
  have "step demoEnv MergeConfirm rearmedPending
      = (rearmedPending\<lparr>store := stopScatteringAll demoEnv (store rearmedPending)\<rparr>)
          \<lparr>warnIsScattering := True\<rparr>"
    by blast
  with a b show ?thesis
    by (simp add: demoEnv_def specEnv_simps specStopScatteringAll_frame list_ex_iff
        rayScatterStop_not_scattering)
qed

text \<open>
  Claim C4. Scattering has finished while the confirmation is pending. With
  auto-start-on-scatter-completion disabled, the effects of the next render resolve the
  confirmation as a confirm does: the confirmation is cleared, \<^verbatim>\<open>stopScatteringAll\<close> and
  then \<^verbatim>\<open>createFusion\<close> are called. With auto-start enabled, \<^verbatim>\<open>canGather\<close> true and no
  auto-merge fired yet, the auto-merge path runs and clears the confirmation. But with
  auto-start enabled and the auto-merge already fired, neither effect runs: the resume
  effect is switched off by auto-start, the auto-merge effect by \<^verbatim>\<open>hasAutoMerged\<close>, and the
  view rests as it is, with the confirmation still pending and nothing generating.
\<close>

theorem pending_confirmation_on_completion:
  "(warnIsScattering w \<and> \<not> isScattering (store w) \<and> \<not> gatherAutoStartAfterScatter w \<longrightarrow>
        commit env w = handleStartMergeConfirmation env (render w) w
      \<and> commit env w = (w\<lparr>warnIsScattering := False\<rparr>)
            \<lparr>store := createFusion env False (stopScatteringAll env (store w))\<rparr>)
   \<and> (warnIsScattering w \<and> \<not> isScattering (store w) \<and> gatherAutoStartAfterScatter w
      \<and> canGather (store w) \<and> \<not> hasAutoMerged w \<longrightarrow>
        commit env w =
          w\<lparr>hasAutoMerged := True, warnIsScattering := False,
            store := createFusion env True (stopScatteringAll env (store w))\<rparr>)
   \<and> (warnIsScattering w \<and> \<not> isScattering (store w) \<and> gatherAutoStartAfterScatter w
      \<and> hasAutoMerged w \<longrightarrow>
        commit env w = w \<and> warnIsScattering (commit env w)
      \<and> store (commit env w) = store w)"
proof -
  have 1: "commit env w = handleStartMergeConfirmation env (render w) w
      \<and> commit env w = (w\<lparr>warnIsScattering := False\<rparr>)
            \<lparr>store := createFusion env False (stopScatteringAll env (store w))\<rparr>"
    if "warnIsScattering w" "\<not> isScattering (store w)" "\<not> gatherAutoStartAfterScatter w"
  proof -
    from that have "\<not> shallAutoMerge (render w)" "shallResumeMerge (render w)"
      by (simp_all add: shallAutoMerge_def shallResumeMerge_def render_simps)
    then have "commit env w = handleStartMergeConfirmation env (render w) w"
      by (simp add: commit_cases)
    moreover from that have "handleStartMergeConfirmation env (render w) w =
        (w\<lparr>warnIsScattering := False\<rparr>)
          \<lparr>store := createFusion env False (stopScatteringAll env (store w))\<rparr>"
      by (simp add: confirm_while_idle render_simps)
    ultimately show ?thesis by simp
  qed
  have 2: "commit env w =
          w\<lparr>hasAutoMerged := True, warnIsScattering := False,
            store := createFusion env True (stopScatteringAll env (store w))\<rparr>"
    if "\<not> isScattering (store w)" "gatherAutoStartAfterScatter w" "canGather (store w)"
      "\<not> hasAutoMerged w"
    using that by (simp add: auto_merge_fires)
  have 3: "commit env w = w \<and> warnIsScattering (commit env w)
      \<and> store (commit env w) = store w"
    if "warnIsScattering w" "gatherAutoStartAfterScatter w" "hasAutoMerged w"
  proof -
    from that have "\<not> shallAutoMerge (render w)" "\<not> shallResumeMerge (render w)"
      by (simp_all add: shallAutoMerge_def shallResumeMerge_def render_simps)
    then have "commit env w = w" by (rule commit_fixed)
    with that show ?thesis by simp
  qed
  from 1 2 3 show ?thesis by blast
qed

theorem pending_confirmation_on_completion_witness:
  "warnIsScattering (completedPending False)
   \<and> \<not> isScattering (store (completedPending False))
   \<and> \<not> warnIsScattering (commit demoEnv (completedPending False))
   \<and> length (fusions (store (commit demoEnv (completedPending False)))) = 1
   \<and> list_ex rayIsScattering (rays (store rearmedPending))
   \<and> warnIsScattering completedRearmed \<and> gatherAutoStartAfterScatter completedRearmed
   \<and> hasAutoMerged completedRearmed \<and> canGather (store completedRearmed)
   \<and> \<not> isScattering (store completedRearmed)
   \<and> \<not> list_ex rayIsScattering (rays (store completedRearmed))
   \<and> commit demoEnv completedRearmed = completedRearmed
   \<and> warnIsScattering (commit demoEnv completedRearmed)
   \<and> fusions (store (commit demoEnv completedRearmed)) = fusions (store rearmedPending)"
proof -
  have a: "warnIsScattering (completedPending False)
      \<and> \<not> isScattering (store (completedPending False))
      \<and> \<not> gatherAutoStartAfterScatter (completedPending False)"
    by code_simp
  have b: "warnIsScattering completedRearmed \<and> \<not> isScattering (store completedRearmed)
      \<and> gatherAutoStartAfterScatter completedRearmed \<and> hasAutoMerged completedRearmed"
    by code_simp
  have c: "list_ex rayIsScattering (rays (store rearmedPending))"
    "canGather (store completedRearmed)"
    "\<not> list_ex rayIsScattering (rays (store completedRearmed))"
    "fusions (store completedRearmed) = fusions (store rearmedPending)"
    "length (fusions (createFusion demoEnv False
        (stopScatteringAll demoEnv (store (completedPending False))))) = 1"
    by code_simp+
  from pending_confirmation_on_completion[of "completedPending False" demoEnv] a
  have "commit demoEnv (completedPending False) =
      ((completedPending False)\<lparr>warnIsScattering := False\<rparr>)
        \<lparr>store := createFusion demoEnv False
                    (stopScatteringAll demoEnv (store (completedPending False)))\<rparr>"
    by blast
  moreover
  from pending_confirmation_on_completion[of completedRearmed demoEnv] b
  have "commit demoEnv completedRearmed = completedRearmed" by blast
  ultimately show ?thesis using a b c by simp
qed

text \<open>
  Claim C6. Denying the pending merge clears the pending confirmation and nothing else:
  the store is the same, so no fusion is created, every ray keeps its state and no
  generation job is cancelled; no side effect goes out. In the render that follows the
  resume effect is off and the auto-merge effect is as it was, so from a view at rest the
  denial is all that happens.
\<close>

theorem deny_frame:
  "store (handleStartMergeDenial w) = store w
   \<and> rays (store (handleStartMergeDenial w)) = rays (store w)
   \<and> fusions (store (handleStartMergeDenial w)) = fusions (store w)
   \<and> cancelledJobs (store (handleStartMergeDenial w)) = cancelledJobs (store w)
   \<and> \<not> warnIsScattering (handleStartMergeDenial w)
   \<and> hasAutoMerged (handleStartMergeDenial w) = hasAutoMerged w
   \<and> gatherAutoStartAfterScatter (handleStartMergeDenial w) = gatherAutoStartAfterScatter w
   \<and> successCalls (handleStartMergeDenial w) = successCalls w
   \<and> clipboard (handleStartMergeDenial w) = clipboard w
   \<and> \<not> shallResumeMerge (render (handleStartMergeDenial w))
   \<and> shallAutoMerge (render (handleStartMergeDenial w)) = shallAutoMerge (render w)
   \<and> (commit env w = w \<longrightarrow> step env MergeDeny w = handleStartMergeDenial w)"
proof -
  have 1: "step env MergeDeny w = handleStartMergeDenial w" if "commit env w = w"
  proof -
    have "hasAutoMerged (commit env w) = hasAutoMerged w" using that by simp
    then have na: "\<not> shallAutoMerge (render w)"
      by (auto simp: commit_hasAutoMerged shallAutoMerge_def render_simps)
    show ?thesis
    proof (cases "warnIsScattering w")
      case True
      from na have "\<not> shallAutoMerge (render (handleStartMergeDenial w))"
        "\<not> shallResumeMerge (render (handleStartMergeDenial w))"
        by (simp_all add: shallAutoMerge_def shallResumeMerge_def render_simps
            handleStartMergeDenial_def)
      with True show ?thesis by (simp add: step_def render_simps commit_fixed)
    next
      case False
      then have "handleStartMergeDenial w = w" by (simp add: handleStartMergeDenial_def)
      with False that show ?thesis by (simp add: step_def render_simps)
    qed
  qed
  show ?thesis
    using 1 by (simp add: handleStartMergeDenial_def shallAutoMerge_def shallResumeMerge_def
        render_simps)
qed

theorem deny_frame_witness:
  "commit demoEnv (pendingWorld True) = pendingWorld True
   \<and> warnIsScattering (pendingWorld True)
   \<and> list_ex rayIsScattering (rays (store (pendingWorld True)))
   \<and> step demoEnv MergeDeny (pendingWorld True) = (pendingWorld True)\<lparr>warnIsScattering := False\<rparr>
   \<and> store (step demoEnv MergeDeny (pendingWorld True)) = store (pendingWorld True)"
proof -
  have a: "commit demoEnv (pendingWorld True) = pendingWorld True" by code_simp
  have b: "warnIsScattering (pendingWorld True)"
    "list_ex rayIsScattering (rays (store (pendingWorld True)))"
    by code_simp+
  from deny_frame[of "pendingWorld True" demoEnv] a
  have "step demoEnv MergeDeny (pendingWorld True) = handleStartMergeDenial (pendingWorld True)"
    by blast
  with a b show ?thesis by (simp add: handleStartMergeDenial_def)
qed

section \<open>Accepting an output\<close>



text \<open>
  Claim C10. The success callback is never invoked with an empty output. Accepting a
  fusion changes nothing at all when the fusion is not found, has no output message, has
  an output message of no fragments, or no success callback is registered; accepting or
  copying all rays changes nothing at all when the rays together have no fragment. Every
  message an acceptance passes to the callback has at least one fragment.
\<close>

theorem accept_guarded:
  "(find (\<lambda>fusion. fusionId fusion = fid) (fusions (store w)) = None \<longrightarrow> handleFusionUse fid w = w)
   \<and> (find (\<lambda>fusion. fusionId fusion = fid) (fusions (store w)) = Some f
        \<and> outputDMessage f = None \<longrightarrow> handleFusionUse fid w = w)
   \<and> (find (\<lambda>fusion. fusionId fusion = fid) (fusions (store w)) = Some f
        \<and> outputDMessage f = Some m
        \<and> (fragments m = [] \<or> onSuccessCallback (store w) = None) \<longrightarrow> handleFusionUse fid w = w)
   \<and> (concat (map (\<lambda>ray. fragments (message ray)) (rays (store w))) = [] \<longrightarrow>
        handleRaysOperation env operation w = w)
   \<and> (\<exists>new. successCalls (handleFusionUse fid w) = successCalls w @ new
          \<and> (\<forall>m'\<in>set new. fragments m' \<noteq> []))
   \<and> (\<exists>new. successCalls (handleRaysOperation env operation w) = successCalls w @ new
          \<and> (\<forall>m'\<in>set new. fragments m' \<noteq> []))"
proof -
  have 1: "\<exists>new. successCalls (handleFusionUse fid w) = successCalls w @ new
          \<and> (\<forall>m'\<in>set new. fragments m' \<noteq> [])"
    unfolding handleFusionUse_calls by (auto split: option.splits)
  have 2: "\<exists>new. successCalls (handleRaysOperation env operation w) = successCalls w @ new
          \<and> (\<forall>m'\<in>set new. fragments m' \<noteq> [])"
    unfolding handleRaysOperation_calls by auto
  have 3: "handleRaysOperation env operation w = w"
    if "concat (map (\<lambda>ray. fragments (message ray)) (rays (store w))) = []"
    using that by (simp add: handleRaysOperation_def)
  from 1 2 3 show ?thesis
    by (auto simp: handleFusionUse_def)
qed

theorem accept_guarded_witness:
  "handleFusionUse 7 emptyFusionWorld = emptyFusionWorld
   \<and> handleFusionUse 3 emptyFusionWorld = emptyFusionWorld
   \<and> handleRaysOperation demoEnv Use (step demoEnv (RaySetCount 2) (demoWorld True))
       = step demoEnv (RaySetCount 2) (demoWorld True)
   \<and> length (rays (store (step demoEnv (RaySetCount 2) (demoWorld True)))) = 2"
proof -
  let ?f = "\<lparr>fusionId = 3, factoryId = ''fuse'', llmId = Some ''m1'', stage = FusionDone,
             outputDMessage = Some \<lparr>fragments = []\<rparr>, errorText = None,
             fusionInput = [\<lparr>fragments = [''a'']\<rparr>, \<lparr>fragments = [''b'']\<rparr>,
                            \<lparr>fragments = [''c'']\<rparr>]\<rparr>"
  let ?w2 = "step demoEnv (RaySetCount 2) (demoWorld True)"
  have a: "find (\<lambda>fusion. fusionId fusion = 7) (fusions (store emptyFusionWorld)) = None"
    by code_simp
  have b: "find (\<lambda>fusion. fusionId fusion = 3) (fusions (store emptyFusionWorld)) = Some ?f
      \<and> outputDMessage ?f = Some \<lparr>fragments = []\<rparr>"
    by code_simp
  have c: "concat (map (\<lambda>ray. fragments (message ray)) (rays (store ?w2))) = []"
    "length (rays (store ?w2)) = 2"
    by code_simp+
  from accept_guarded[of 7 emptyFusionWorld] a
  have "handleFusionUse 7 emptyFusionWorld = emptyFusionWorld" by blast
  moreover from accept_guarded[of 3 emptyFusionWorld ?f "\<lparr>fragments = []\<rparr>"] b
  have "handleFusionUse 3 emptyFusionWorld = emptyFusionWorld" by simp
  moreover from accept_guarded[of 3 ?w2 _ _ demoEnv Use] c
  have "handleRaysOperation demoEnv Use ?w2 = ?w2" by blast
  ultimately show ?thesis using c by simp
qed


section \<open>The scatter controller\<close>

text \<open>
  Claim C7. \<^verbatim>\<open>specSetRayCount(n)\<close> clamps \<open>n\<close> into the range from 0 to the configured
  maximum and leaves exactly that many rays: exactly \<open>n\<close> when \<open>n\<close> is in range, none
  when \<open>n\<close> is negative, the maximum when \<open>n\<close> exceeds it. The rays kept are the first
  ones, unchanged; the rays removed are the trailing ones, and the job of each removed ray
  that is generating is cancelled; every ray added is idle with an empty output. The
  fusions are not touched.
\<close>

theorem setRayCount_resizes:
  "length (rays (specSetRayCount cfg n s)) = nat (max 0 (min (int (maxRays cfg)) n))
   \<and> (0 \<le> n \<and> n \<le> int (maxRays cfg) \<longrightarrow> length (rays (specSetRayCount cfg n s)) = nat n)
   \<and> (n < 0 \<longrightarrow> rays (specSetRayCount cfg n s) = [])
   \<and> (int (maxRays cfg) < n \<longrightarrow> length (rays (specSetRayCount cfg n s)) = maxRays cfg)
   \<and> take (min (length (rays (specSetRayCount cfg n s))) (length (rays s))) (rays (specSetRayCount cfg n s))
       = take (min (length (rays (specSetRayCount cfg n s))) (length (rays s))) (rays s)
   \<and> (\<forall>r\<in>set (drop (length (rays s)) (rays (specSetRayCount cfg n s))).
         status r = RayIdle \<and> fragments (message r) = [])
   \<and> cancelledJobs (specSetRayCount cfg n s) =
       cancelledJobs s @
         map rayId (filter rayIsScattering (drop (length (rays (specSetRayCount cfg n s))) (rays s)))
   \<and> fusions (specSetRayCount cfg n s) = fusions s"
proof -
  define count where "count = nat (max 0 (min (int (maxRays cfg)) n))"
  define fresh where
    "fresh = map (\<lambda>k. createBRay (nextId s + k)) [0..<count - length (rays s)]"
  let ?rs' = "rays (specSetRayCount cfg n s)"
  have rs: "?rs' = take count (rays s) @ fresh"
    by (simp add: specSetRayCount_def Let_def syncRaysStateToScatter_def count_def fresh_def)
  have len: "length ?rs' = count"
    unfolding rs by (simp add: fresh_def)
  have cj: "cancelledJobs (specSetRayCount cfg n s) =
      cancelledJobs s @ map rayId (filter rayIsScattering (drop (length ?rs') (rays s)))"
    unfolding len
    by (simp add: specSetRayCount_def Let_def syncRaysStateToScatter_def count_def)
  have fu: "fusions (specSetRayCount cfg n s) = fusions s"
    by (simp add: specSetRayCount_def Let_def syncRaysStateToScatter_def)
  have keep: "take (min (length ?rs') (length (rays s))) ?rs'
      = take (min (length ?rs') (length (rays s))) (rays s)"
    unfolding len unfolding rs by (simp add: min_def)
  have added: "drop (length (rays s)) ?rs' = fresh \<or> drop (length (rays s)) ?rs' = []"
    unfolding rs by (cases "count \<le> length (rays s)") (simp_all add: fresh_def)
  have idle: "\<forall>r\<in>set fresh. status r = RayIdle \<and> fragments (message r) = []"
    by (simp add: fresh_def createBRay_def)
  from added idle have new:
    "\<forall>r\<in>set (drop (length (rays s)) ?rs'). status r = RayIdle \<and> fragments (message r) = []"
    by auto
  have inr: "length ?rs' = nat n" if "0 \<le> n \<and> n \<le> int (maxRays cfg)"
    using that unfolding len count_def by simp
  have neg: "?rs' = []" if "n < 0"
    using that len by (simp add: count_def)
  have big: "length ?rs' = maxRays cfg" if "int (maxRays cfg) < n"
    using that unfolding len count_def by simp
  have len': "length ?rs' = nat (max 0 (min (int (maxRays cfg)) n))"
    using len by (simp add: count_def)
  from len' inr neg big keep new cj fu show ?thesis by blast
qed

theorem setRayCount_resizes_witness:
  "map status (rays (store (busyWorld True))) = [RayDone, RayDone, RayGenerating]
   \<and> rays (specSetRayCount demoCfg 2 (store (busyWorld True))) = take 2 (rays (store (busyWorld True)))
   \<and> cancelledJobs (specSetRayCount demoCfg 2 (store (busyWorld True))) = [2]
   \<and> length (rays (specSetRayCount demoCfg 5 (store (busyWorld True)))) = 5
   \<and> rays (specSetRayCount demoCfg (- 4) (store (busyWorld True))) = []
   \<and> length (rays (specSetRayCount demoCfg 100 (store (busyWorld True)))) = 8"
proof -
  let ?s = "store (busyWorld True)"
  have a: "map status (rays ?s) = [RayDone, RayDone, RayGenerating]"
    "length (rays ?s) = 3" "cancelledJobs ?s = []" "maxRays demoCfg = 8"
    "map rayId (filter rayIsScattering (drop 2 (rays ?s))) = [2]"
    by code_simp+
  note t = setRayCount_resizes[of demoCfg _ ?s]
  have l2: "length (rays (specSetRayCount demoCfg 2 ?s)) = 2" using t[of 2] a by simp
  from t[of 2] have "take (min (length (rays (specSetRayCount demoCfg 2 ?s))) (length (rays ?s)))
        (rays (specSetRayCount demoCfg 2 ?s))
      = take (min (length (rays (specSetRayCount demoCfg 2 ?s))) (length (rays ?s))) (rays ?s)"
    by blast
  with l2 a have r2: "rays (specSetRayCount demoCfg 2 ?s) = take 2 (rays ?s)" by simp
  from t[of 2] have "cancelledJobs (specSetRayCount demoCfg 2 ?s) =
       cancelledJobs ?s @
         map rayId (filter rayIsScattering (drop (length (rays (specSetRayCount demoCfg 2 ?s))) (rays ?s)))"
    by blast
  with l2 a have c2: "cancelledJobs (specSetRayCount demoCfg 2 ?s) = [2]" by simp
  have l5: "length (rays (specSetRayCount demoCfg 5 ?s)) = 5" using t[of 5] a by simp
  have ln: "rays (specSetRayCount demoCfg (- 4) ?s) = []" using t[of "- 4"] by simp
  have lx: "length (rays (specSetRayCount demoCfg 100 ?s)) = 8" using t[of 100] a by simp
  from a r2 c2 l5 ln lx show ?thesis by simp
qed


section \<open>Cancellation\<close>

text \<open>
  Claim C8. Cancelling a ray while it is generating makes it stopped, and it stays
  stopped with the output it had, whatever job events (a final chunk, a completion, an
  error) still arrive afterwards; the same holds for a fusion cancelled while it is
  fusing. Stopping the whole scatter turns exactly the generating rays into stopped ones
  and leaves the state of every other ray as it was.
\<close>

theorem cancel_yields_stopped:
  "(status r = RayGenerating \<longrightarrow>
        status (rayScatterStop r) = RayStopped
      \<and> foldl rayJobEvent (rayScatterStop r) evs = rayScatterStop r
      \<and> status (foldl rayJobEvent (rayScatterStop r) evs) = RayStopped
      \<and> message (foldl rayJobEvent (rayScatterStop r) evs) = message r
      \<and> rayErrorText (foldl rayJobEvent (rayScatterStop r) evs) = rayErrorText r)
   \<and> (stage f = FusionFusing \<longrightarrow>
        stage (toggleGathering rs f) = FusionStopped
      \<and> foldl fusionJobEvent (toggleGathering rs f) evs = toggleGathering rs f
      \<and> stage (foldl fusionJobEvent (toggleGathering rs f) evs) = FusionStopped
      \<and> outputDMessage (foldl fusionJobEvent (toggleGathering rs f) evs) = outputDMessage f
      \<and> errorText (foldl fusionJobEvent (toggleGathering rs f) evs) = errorText f)
   \<and> map status (rays (specStopScatteringAll s)) =
       map (\<lambda>r. if status r = RayGenerating then RayStopped else status r) (rays s)"
proof -
  have 1: "status (rayScatterStop r) = RayStopped
      \<and> foldl rayJobEvent (rayScatterStop r) evs = rayScatterStop r
      \<and> message (rayScatterStop r) = message r
      \<and> rayErrorText (rayScatterStop r) = rayErrorText r"
    if "status r = RayGenerating"
    using that
    by (simp add: rayJobEvents_not_scattering rayScatterStop_not_scattering)
       (simp add: rayScatterStop_def rayIsScattering_def)
  have st: "toggleGathering rs f = f\<lparr>stage := FusionStopped\<rparr>" if "stage f = FusionFusing"
    using that by (simp add: toggleGathering_def fusionStop_def fusionIsFusing_def)
  have 2: "stage (toggleGathering rs f) = FusionStopped
      \<and> foldl fusionJobEvent (toggleGathering rs f) evs = toggleGathering rs f
      \<and> outputDMessage (toggleGathering rs f) = outputDMessage f
      \<and> errorText (toggleGathering rs f) = errorText f"
    if "stage f = FusionFusing"
    using that by (simp add: st fusionJobEvents_not_fusing fusionIsFusing_def)
  have 3: "map status (rays (specStopScatteringAll s)) =
       map (\<lambda>r. if status r = RayGenerating then RayStopped else status r) (rays s)"
    by (simp add: specStopScatteringAll_frame rayScatterStop_def rayIsScattering_def)
  from 1 2 3 show ?thesis by simp
qed

theorem cancel_yields_stopped_witness:
  "map status (rays (store (busyWorld True))) = [RayDone, RayDone, RayGenerating]
   \<and> map status (rays (store (run demoEnv [ScatterStop, RayJob 2 (Delta ''late''), RayJob 2 JobDone]
        (busyWorld True)))) = [RayDone, RayDone, RayStopped]
   \<and> map stage (fusions (store (settledWorld True))) = [FusionFusing]
   \<and> map stage (fusions (store (run demoEnv [FusionToggle 3, FusionJob 3 (Delta ''late''),
        FusionJob 3 (JobError ''aborted'')] (settledWorld True)))) = [FusionStopped]
   \<and> status (foldl rayJobEvent (rayScatterStop (rayScatterStart (createBRay 0)))
        [Delta ''late'', JobDone]) = RayStopped
   \<and> stage (foldl fusionJobEvent
        (toggleGathering [] (fusionStart [] (createBFusion 0 ''fuse'' ''m1'')))
        [Delta ''late'', JobError ''aborted'']) = FusionStopped"
proof -
  have a: "status (rayScatterStart (createBRay 0)) = RayGenerating"
    "stage (fusionStart [] (createBFusion 0 ''fuse'' ''m1'')) = FusionFusing"
    by (simp_all add: rayScatterStart_def fusionStart_def)
  have b: "map status (rays (store (busyWorld True))) = [RayDone, RayDone, RayGenerating]"
    "map status (rays (store (run demoEnv [ScatterStop, RayJob 2 (Delta ''late''), RayJob 2 JobDone]
        (busyWorld True)))) = [RayDone, RayDone, RayStopped]"
    "map stage (fusions (store (settledWorld True))) = [FusionFusing]"
    "map stage (fusions (store (run demoEnv [FusionToggle 3, FusionJob 3 (Delta ''late''),
        FusionJob 3 (JobError ''aborted'')] (settledWorld True)))) = [FusionStopped]"
    by code_simp+
  from cancel_yields_stopped[of "rayScatterStart (createBRay 0)" "[Delta ''late'', JobDone]"
      "fusionStart [] (createBFusion 0 ''fuse'' ''m1'')" "[]"] a
  have "status (foldl rayJobEvent (rayScatterStop (rayScatterStart (createBRay 0)))
        [Delta ''late'', JobDone]) = RayStopped"
    by blast
  moreover
  from cancel_yields_stopped[of "rayScatterStart (createBRay 0)"
      "[Delta ''late'', JobError ''aborted'']"
      "fusionStart [] (createBFusion 0 ''fuse'' ''m1'')" "[]"] a
  have "stage (foldl fusionJobEvent
        (toggleGathering [] (fusionStart [] (createBFusion 0 ''fuse'' ''m1'')))
        [Delta ''late'', JobError ''aborted'']) = FusionStopped"
    by blast
  ultimately show ?thesis using b by simp
qed

end
